theory Spec2Isabelle
  imports Main "HOL-Library.AList"
begin

section \<open>calender-sync: the day-order fetcher and the calendar reconciler\<close>

text \<open>
  A shallow embedding of \<^verbatim>\<open>src/calender_updater.py\<close> and
  \<^verbatim>\<open>src/fetch_dayorder.py\<close>. Python strings are \<^typ>\<open>string\<close>, Python's
  unbounded integers are \<^typ>\<open>int\<close>, a dict is an association list in insertion
  order, an exception is the \<open>Inl\<close> branch of a sum.
\<close>

subsection \<open>format_datetime\<close>

text \<open>
  \<^verbatim>\<open>
  def format_datetime(date, time_str):
      if len(time_str) == 4:  # If time is like "9:30"
          time_str = f"0{time_str}"
      datetime_str = f"{date}T{time_str}:00+05:30"
      return datetime_str
  \<close>
\<close>

definition format_datetime :: "string \<Rightarrow> string \<Rightarrow> string" where
  "format_datetime date time_str =
     (let time_str = (if length time_str = 4 then ''0'' @ time_str else time_str)
      in date @ ''T'' @ time_str @ '':00+05:30'')"


subsection \<open>Exceptions\<close>

text \<open>
  Every exception the two modules can meet is a value; the string is the text that
  \<^verbatim>\<open>str(e)\<close> gives. \<open>ExternalError\<close> stands for whatever the HTTP client, the
  Google client, the date library or the file system raise.
\<close>

datatype error =
    NameError string
  | ValueError string
  | IndexError string
  | OverflowError string
  | ExternalError string

fun str_error :: "error \<Rightarrow> string" where
  "str_error (NameError m) = m"
| "str_error (ValueError m) = m"
| "str_error (IndexError m) = m"
| "str_error (OverflowError m) = m"
| "str_error (ExternalError m) = m"

subsection \<open>Python's \<open>int\<close> and \<open>str\<close> on decimal text\<close>

text \<open>
  \<^verbatim>\<open>int(s)\<close> for a string: white space around the literal (blank, tab, line feed,
  vertical tab, form feed, carriage return) is dropped, one sign is allowed, then decimal digits, where single underscores may separate digits; anything
  else raises ValueError. Strings are ASCII here; the interpreter's optional limit on the
  number of digits is not part of the model.
\<close>

definition is_space :: "char \<Rightarrow> bool" where
  "is_space c = (c \<in> set [CHR '' '', CHR 0x09, CHR 0x0A, CHR 0x0B, CHR 0x0C, CHR 0x0D])"

definition strip :: "string \<Rightarrow> string" where
  "strip s = rev (dropWhile is_space (rev (dropWhile is_space s)))"

definition decimal_digits :: string where
  "decimal_digits = ''0123456789''"

fun index_of :: "'a \<Rightarrow> 'a list \<Rightarrow> nat option" where
  "index_of x [] = None"
| "index_of x (y # ys) = (if x = y then Some 0 else map_option Suc (index_of x ys))"

definition digit_val :: "char \<Rightarrow> nat option" where
  "digit_val c = index_of c decimal_digits"

fun parse_digits :: "string \<Rightarrow> nat \<Rightarrow> nat option" where
  "parse_digits [] acc = Some acc"
| "parse_digits [c] acc =
     (case digit_val c of None \<Rightarrow> None | Some v \<Rightarrow> Some (10 * acc + v))"
| "parse_digits (c # d # ds) acc =
     (if c = CHR ''_''
      then (case digit_val d of None \<Rightarrow> None | Some v \<Rightarrow> parse_digits ds (10 * acc + v))
      else (case digit_val c of None \<Rightarrow> None
            | Some v \<Rightarrow> parse_digits (d # ds) (10 * acc + v)))"

definition invalid_literal :: "string \<Rightarrow> error" where
  "invalid_literal s =
     ValueError (''invalid literal for int() with base 10: '' @ [CHR 0x27] @ s @ [CHR 0x27])"

definition py_int :: "string \<Rightarrow> error + int" where
  "py_int s =
     (case strip s of
        [] \<Rightarrow> Inl (invalid_literal s)
      | c # cs \<Rightarrow>
          (let neg = (c = CHR ''-'');
               body = (if c = CHR ''-'' \<or> c = CHR ''+'' then cs else c # cs)
           in case body of
                [] \<Rightarrow> Inl (invalid_literal s)
              | d # ds \<Rightarrow>
                  (case digit_val d of
                     None \<Rightarrow> Inl (invalid_literal s)
                   | Some v \<Rightarrow>
                       (case parse_digits ds v of
                          None \<Rightarrow> Inl (invalid_literal s)
                        | Some n \<Rightarrow> Inr (if neg then - int n else int n)))))"

definition digit_char :: "nat \<Rightarrow> char" where
  "digit_char n = decimal_digits ! n"

fun nat_str :: "nat \<Rightarrow> string" where
  "nat_str n =
     (if n < 10 then [digit_char n] else nat_str (n div 10) @ [digit_char (n mod 10)])"

declare nat_str.simps [simp del]

definition py_str :: "int \<Rightarrow> string" where
  "py_str n = (if n < 0 then CHR ''-'' # nat_str (nat (- n)) else nat_str (nat n))"

text \<open>Plain decimal text: digits only, and the number it denotes.\<close>

definition is_digit :: "char \<Rightarrow> bool" where
  "is_digit c = (c \<in> set decimal_digits)"

definition digits_value :: "nat \<Rightarrow> string \<Rightarrow> nat" where
  "digits_value acc ds = foldl (\<lambda>a c. 10 * a + the (digit_val c)) acc ds"

subsection \<open>Dicts and sets of strings\<close>

text \<open>
  A dict is the list of its items in insertion order. \<^verbatim>\<open>d[k] = v\<close> replaces the
  value of a key that is present, where it stands, and appends a new key.
\<close>

type_synonym ('k, 'v) dict = "('k \<times> 'v) list"

fun dict_set :: "'k \<Rightarrow> 'v \<Rightarrow> ('k, 'v) dict \<Rightarrow> ('k, 'v) dict" where
  "dict_set k v [] = [(k, v)]"
| "dict_set k v (p # ps) = (if fst p = k then (k, v) # ps else p # dict_set k v ps)"

definition keys :: "('k, 'v) dict \<Rightarrow> 'k list" where
  "keys d = map fst d"

definition dict_get :: "('k, 'v) dict \<Rightarrow> 'k \<Rightarrow> 'v \<Rightarrow> 'v" where
  "dict_get d k dflt = (case map_of d k of None \<Rightarrow> dflt | Some v \<Rightarrow> v)"

text \<open>
  A Python set is a list without repetitions; the order of that list has no meaning.
\<close>

definition set_add :: "'a \<Rightarrow> 'a list \<Rightarrow> 'a list" where
  "set_add x s = (if x \<in> set s then s else s @ [x])"

definition set_difference :: "'a list \<Rightarrow> 'a list \<Rightarrow> 'a list" where
  "set_difference a b = filter (\<lambda>x. x \<notin> set b) a"

subsection \<open>fetch\_dayorder.py: get\_next\_5\_day\_orders\<close>

text \<open>
  The response of \<^verbatim>\<open>requests.get(API_URL)\<close>: its status code and what
  \<^verbatim>\<open>response.json()\<close> gives, in the documented shape
  \<^verbatim>\<open>{calendar: [{days: [{date, dayOrder}, ...]}, ...]}\<close>: the list of months, each the
  list of its day records.
\<close>

record day =
  date :: string
  dayOrder :: string

record response =
  status_code :: int
  json :: "error + day list list"

text \<open>
  \<^verbatim>\<open>
  for day in month_data:
      if count >= 5:
          break
      if int(day["date"]) >= today_date:
          if day["dayOrder"] != "-":
              next_5_days[day["date"]] = day["dayOrder"]
              count += 1
  return next_5_days
  \<close>
\<close>

fun collect_days ::
  "int \<Rightarrow> day list \<Rightarrow> (string, string) dict \<Rightarrow> int \<Rightarrow> error + (string, string) dict" where
  "collect_days today_date [] next_5_days count = Inr next_5_days"
| "collect_days today_date (d # month_data) next_5_days count =
     (if count \<ge> 5 then Inr next_5_days
      else case py_int (date d) of
             Inl e \<Rightarrow> Inl e
           | Inr n \<Rightarrow>
               if n \<ge> today_date
               then if dayOrder d \<noteq> ''-''
                    then collect_days today_date month_data
                           (dict_set (date d) (dayOrder d) next_5_days) (count + 1)
                    else collect_days today_date month_data next_5_days count
               else collect_days today_date month_data next_5_days count)"

text \<open>
  \<open>get_next_5_day_orders\<close> takes what the call of \<^verbatim>\<open>requests.get\<close> gave (an
  exception or a response) and \<^verbatim>\<open>datetime.now().day\<close>. \<open>None\<close> is Python's None.
  The statement at module level (line 33), which runs the function once at import and
  prints what it returns, is outside the functions modelled here.
\<close>

definition get_next_5_day_orders ::
  "error + response \<Rightarrow> int \<Rightarrow> error + (string, string) dict option" where
  "get_next_5_day_orders got today_date =
     (case got of
        Inl e \<Rightarrow> Inl e
      | Inr resp \<Rightarrow>
          if status_code resp = 200
          then (case json resp of
                  Inl e \<Rightarrow> Inl e
                | Inr data \<Rightarrow>
                    (case data of
                       [] \<Rightarrow> Inl (IndexError ''list index out of range'')
                     | month # _ \<Rightarrow>
                         (case collect_days today_date month [] 0 of
                            Inl e \<Rightarrow> Inl e
                          | Inr next_5_days \<Rightarrow> Inr (Some next_5_days))))
          else Inr None)"

text \<open>
  The collection as the specification words it: keep the records that are not before
  today and do not carry the sentinel, stop at five, store them in order.
\<close>

definition qualifies :: "int \<Rightarrow> day \<Rightarrow> bool" where
  "qualifies today_date d =
     (case py_int (date d) of
        Inl _ \<Rightarrow> False
      | Inr n \<Rightarrow> n \<ge> today_date \<and> dayOrder d \<noteq> ''-'')"

definition store_all :: "day list \<Rightarrow> (string, string) dict \<Rightarrow> (string, string) dict" where
  "store_all ds acc = foldl (\<lambda>m d. dict_set (date d) (dayOrder d) m) acc ds"

definition first_five_qualifying :: "int \<Rightarrow> day list \<Rightarrow> (string, string) dict" where
  "first_five_qualifying today_date month_data =
     store_all (take 5 (filter (qualifies today_date) month_data)) []"

subsection \<open>calender\_updater.py: the calendar service and the effects of a run\<close>

text \<open>
  What the calendar service gives for a listed event: \<^verbatim>\<open>event["id"]\<close> and
  \<^verbatim>\<open>event.get("summary")\<close>. The body of an inserted event is the dict that
  \<open>create_event\<close> builds.
\<close>

record item =
  item_id :: string
  item_summary :: "string option"

record event =
  summary :: string
  description :: string
  start_dateTime :: string
  start_timeZone :: string
  end_dateTime :: string
  end_timeZone :: string
  colorId :: string

record class_info =
  subject :: string
  start_time :: string
  end_time :: string

text \<open>
  The Google client is outside the repository: a service is any three operations on a
  state \<open>'st\<close> of its own. Each returns the new state and either an exception or its
  answer; \<open>events_list\<close> answers with the \<^verbatim>\<open>"items"\<close> of the result, if it has any.
  The arguments are the calendar id and, for \<open>events_list\<close>, \<^verbatim>\<open>timeMin\<close> and
  \<^verbatim>\<open>timeMax\<close> (\<^verbatim>\<open>timeZone="Asia/Kolkata"\<close> and \<^verbatim>\<open>singleEvents=True\<close> are constants of
  the call).
\<close>

record 'st service =
  events_list :: "'st \<Rightarrow> string \<Rightarrow> string \<Rightarrow> string \<Rightarrow> (error + item list option) \<times> 'st"
  events_delete :: "'st \<Rightarrow> string \<Rightarrow> string \<Rightarrow> (error + unit) \<times> 'st"
  events_insert :: "'st \<Rightarrow> string \<Rightarrow> event \<Rightarrow> (error + unit) \<times> 'st"

text \<open>
  A run leaves a trace: the lines it prints and the calls it makes to the service, in the
  order in which they happen.
\<close>

datatype effect =
    Print string
  | ListCall string string string
  | DeleteCall string string
  | InsertCall string event

record 'st world =
  service_state :: 'st
  trace :: "effect list"

definition emit :: "effect \<Rightarrow> 'st world \<Rightarrow> 'st world" where
  "emit x w = w\<lparr>trace := trace w @ [x]\<rparr>"

definition called :: "effect \<Rightarrow> 'st \<Rightarrow> 'st world \<Rightarrow> 'st world" where
  "called x st w = w\<lparr>service_state := st, trace := trace w @ [x]\<rparr>"

fun is_call :: "effect \<Rightarrow> bool" where
  "is_call (Print _) = False"
| "is_call _ = True"

fun is_insert :: "effect \<Rightarrow> bool" where
  "is_insert (InsertCall _ _) = True"
| "is_insert _ = False"

fun is_delete :: "effect \<Rightarrow> bool" where
  "is_delete (DeleteCall _ _) = True"
| "is_delete _ = False"

text \<open>
  What a run reads from outside: the answer of the schedule API and the day of the month
  at that moment; the service that \<open>get_calendar_service\<close> builds from
  \<^verbatim>\<open>GOOGLE_CREDENTIALS\<close>, or the exception it raises; the variable \<^verbatim>\<open>CALENDAR_ID\<close>;
  \<^verbatim>\<open>today.day\<close>; the date library, as the function that gives
  \<^verbatim>\<open>(today + timedelta(days=n)).strftime("%Y-%m-%d")\<close> or its exception; the order in
  which a set of strings is iterated (it depends on the hash seed of the process); and
  the file \<^verbatim>\<open>config/class_schedule.json\<close>.
\<close>

datatype schedule_file =
    FileNotFound
  | InvalidJSON
  | Unreadable error
  | Parsed "(string, class_info list) dict"

record 'st env =
  api_response :: "error + response"
  fetch_day :: int
  calendar_service :: "error + 'st service"
  CALENDAR_ID :: "string option"
  today_day :: int
  date_plus :: "int \<Rightarrow> error + string"
  set_order :: "string list \<Rightarrow> string list"
  class_schedule_file :: schedule_file

definition newline :: string where
  "newline = [CHR 0x0A]"

definition SUBJECT_COLORS :: "(string, string) dict" where
  "SUBJECT_COLORS =
     [(''PQT'', ''1''), (''AI'', ''9''), (''UHV'', ''6''), (''DAA'', ''3''),
      (''DIP'', ''2''), (''DBMS'', ''7''), (''SE'', ''10'')]"

definition get_calendar_service :: "'st env \<Rightarrow> error + 'st service" where
  "get_calendar_service env = calendar_service env"

definition get_calendar_id :: "'st env \<Rightarrow> error + string" where
  "get_calendar_id env =
     (case CALENDAR_ID env of
        None \<Rightarrow> Inl (ValueError ''CALENDAR_ID environment variable is not set'')
      | Some calendar_id \<Rightarrow>
          if calendar_id = [] then Inl (ValueError ''CALENDAR_ID environment variable is not set'')
          else Inr calendar_id)"

definition get_events_for_specific_date ::
  "'st env \<Rightarrow> 'st service \<Rightarrow> string \<Rightarrow> 'st world \<Rightarrow> (error + item list) \<times> 'st world" where
  "get_events_for_specific_date env service date_str w =
     (case get_calendar_id env of
        Inl e \<Rightarrow> (Inl e, w)
      | Inr calendar_id \<Rightarrow>
          (let day_start = format_datetime date_str ''00:00'';
               day_end = format_datetime date_str ''23:59''
           in case events_list service (service_state w) calendar_id day_start day_end of
                (Inl e, st) \<Rightarrow> (Inl e, called (ListCall calendar_id day_start day_end) st w)
              | (Inr events_result, st) \<Rightarrow>
                  (Inr (case events_result of None \<Rightarrow> [] | Some items \<Rightarrow> items),
                   called (ListCall calendar_id day_start day_end) st w)))"

text \<open>
  The loop of \<open>delete_all_events_for_date\<close>: each delete is inside its own
  \<^verbatim>\<open>try\<close>, whose handler prints and goes on.
\<close>

fun delete_events ::
  "'st service \<Rightarrow> string \<Rightarrow> string \<Rightarrow> item list \<Rightarrow> int \<Rightarrow> 'st world \<Rightarrow> int \<times> 'st world" where
  "delete_events service calendar_id date_str [] deleted_count w = (deleted_count, w)"
| "delete_events service calendar_id date_str (ev # events) deleted_count w =
     (case events_delete service (service_state w) calendar_id (item_id ev) of
        (Inr _, st) \<Rightarrow>
          delete_events service calendar_id date_str events (deleted_count + 1)
            (emit (Print (''Deleted event: ''
                     @ (case item_summary ev of None \<Rightarrow> ''Unknown event'' | Some s \<Rightarrow> s)
                     @ '' on '' @ date_str))
               (called (DeleteCall calendar_id (item_id ev)) st w))
      | (Inl e, st) \<Rightarrow>
          delete_events service calendar_id date_str events deleted_count
            (emit (Print (''Error deleting event: '' @ str_error e))
               (called (DeleteCall calendar_id (item_id ev)) st w)))"

definition delete_all_events_for_date ::
  "'st env \<Rightarrow> 'st service \<Rightarrow> string \<Rightarrow> 'st world \<Rightarrow> (error + unit) \<times> 'st world" where
  "delete_all_events_for_date env service date_str w =
     (case get_calendar_id env of
        Inl e \<Rightarrow> (Inl e, w)
      | Inr calendar_id \<Rightarrow>
          (case get_events_for_specific_date env service date_str
                  (emit (Print (''Checking for events to delete on '' @ date_str)) w) of
             (Inl e, w1) \<Rightarrow> (Inl e, w1)
           | (Inr events, w1) \<Rightarrow>
               (case delete_events service calendar_id date_str events 0 w1 of
                  (deleted_count, w2) \<Rightarrow>
                    if deleted_count > 0
                    then (Inr (), emit (Print (''Deleted '' @ py_str deleted_count
                                                @ '' events for '' @ date_str)) w2)
                    else (Inr (), emit (Print (''No events found to delete for ''
                                                @ date_str)) w2))))"

text \<open>
  In \<open>create_event\<close> the only assignment to \<^verbatim>\<open>base_subject\<close> is commented out
  (line 88), and no global or builtin has that name: evaluating the name at line 101
  raises NameError, outside the \<^verbatim>\<open>try\<close> that guards the insert.
\<close>

definition base_subject :: "error + string" where
  "base_subject = Inl (NameError ''name 'base_subject' is not defined'')"

text \<open>
  Lines 104 to 110, the \<^verbatim>\<open>try\<close> around the insert: the call is made, and either
  the event is reported and True returned, or the exception is printed and False
  returned.
\<close>

definition try_insert ::
  "'st service \<Rightarrow> string \<Rightarrow> event \<Rightarrow> class_info \<Rightarrow> string \<Rightarrow> 'st world
     \<Rightarrow> bool \<times> 'st world" where
  "try_insert service calendar_id ev ci date_str w =
     (case events_insert service (service_state w) calendar_id ev of
        (Inr _, st) \<Rightarrow>
          (True,
           emit (Print (''Added event: '' @ subject ci @ '' on '' @ date_str))
             (called (InsertCall calendar_id ev) st w))
      | (Inl e, st) \<Rightarrow>
          (False,
           emit (Print (''Error adding event: '' @ str_error e))
             (called (InsertCall calendar_id ev) st w)))"

definition create_event ::
  "'st env \<Rightarrow> 'st service \<Rightarrow> class_info \<Rightarrow> string \<Rightarrow> string \<Rightarrow> 'st world
     \<Rightarrow> (error + bool) \<times> 'st world" where
  "create_event env service ci date_str day_order w =
     (case get_calendar_id env of
        Inl e \<Rightarrow> (Inl e, w)
      | Inr calendar_id \<Rightarrow>
          (let start_datetime = format_datetime date_str (start_time ci);
               end_datetime = format_datetime date_str (end_time ci)
           in case base_subject of
                Inl e \<Rightarrow> (Inl e, w)
              | Inr bs \<Rightarrow>
                  (let ev = \<lparr>summary = subject ci,
                             description = ''Day Order '' @ day_order,
                             start_dateTime = start_datetime,
                             start_timeZone = ''Asia/Kolkata'',
                             end_dateTime = end_datetime,
                             end_timeZone = ''Asia/Kolkata'',
                             colorId = dict_get SUBJECT_COLORS bs ''8''\<rparr>
                   in case try_insert service calendar_id ev ci date_str w of
                        (returned, w1) \<Rightarrow> (Inr returned, w1))))"

definition load_class_schedule ::
  "'st env \<Rightarrow> 'st world
     \<Rightarrow> (error + (string, class_info list) dict option) \<times> 'st world" where
  "load_class_schedule env w =
     (case class_schedule_file env of
        Parsed table \<Rightarrow> (Inr (Some table), w)
      | FileNotFound \<Rightarrow>
          (Inr None,
           emit (Print ''Error: class_schedule.json not found in config directory'') w)
      | InvalidJSON \<Rightarrow>
          (Inr None, emit (Print ''Error: Invalid JSON format in class_schedule.json'') w)
      | Unreadable e \<Rightarrow> (Inl e, w))"

text \<open>The line that \<open>load_class_schedule\<close> prints when it returns None.\<close>

definition load_diagnostic :: "schedule_file \<Rightarrow> string" where
  "load_diagnostic f =
     (if f = FileNotFound then ''Error: class_schedule.json not found in config directory''
      else ''Error: Invalid JSON format in class_schedule.json'')"

subsection \<open>calender\_updater.py: update\_calendar\<close>

text \<open>
  \<^verbatim>\<open>date_numbers = [int(d) for d in day_orders.keys()]\<close>, and \<^verbatim>\<open>min\<close> and
  \<^verbatim>\<open>max\<close>, which raise on an empty list.
\<close>

fun int_all :: "string list \<Rightarrow> error + int list" where
  "int_all [] = Inr []"
| "int_all (d # ds) =
     (case py_int d of
        Inl e \<Rightarrow> Inl e
      | Inr n \<Rightarrow> (case int_all ds of Inl e \<Rightarrow> Inl e | Inr ns \<Rightarrow> Inr (n # ns)))"

definition py_min :: "int list \<Rightarrow> error + int" where
  "py_min xs =
     (case xs of [] \<Rightarrow> Inl (ValueError ''min() arg is an empty sequence'')
      | y # ys \<Rightarrow> Inr (fold min ys y))"

definition py_max :: "int list \<Rightarrow> error + int" where
  "py_max xs =
     (case xs of [] \<Rightarrow> Inl (ValueError ''max() arg is an empty sequence'')
      | y # ys \<Rightarrow> Inr (fold max ys y))"

definition py_set :: "'a list \<Rightarrow> 'a list" where
  "py_set xs = fold set_add xs []"

text \<open>
  \<^verbatim>\<open>
  all_dates_in_range = set()
  current_date = min_date
  while current_date <= max_date:
      all_dates_in_range.add(str(current_date))
      current_date += 1
  \<close>
\<close>

function dates_in_range :: "int \<Rightarrow> int \<Rightarrow> string list \<Rightarrow> string list" where
  "dates_in_range current_date max_date all_dates_in_range =
     (if current_date \<le> max_date
      then dates_in_range (current_date + 1) max_date
             (set_add (py_str current_date) all_dates_in_range)
      else all_dates_in_range)"
  by pat_completeness auto
termination
  by (relation "measure (\<lambda>(c, m, a). nat (m + 1 - c))") auto

declare dates_in_range.simps [simp del]

text \<open>
  Lines 126 to 139: the least and the greatest fetched day and the holiday set.
\<close>

definition holiday_dates :: "(string, string) dict \<Rightarrow> error + int \<times> int \<times> string list" where
  "holiday_dates day_orders =
     (case int_all (keys day_orders) of
        Inl e \<Rightarrow> Inl e
      | Inr date_numbers \<Rightarrow>
          (case py_min date_numbers of
             Inl e \<Rightarrow> Inl e
           | Inr min_date \<Rightarrow>
               (case py_max date_numbers of
                  Inl e \<Rightarrow> Inl e
                | Inr max_date \<Rightarrow>
                    (let all_dates_in_range = dates_in_range min_date max_date [];
                         scheduled_dates = py_set (keys day_orders)
                     in Inr (min_date, max_date,
                             set_difference all_dates_in_range scheduled_dates)))))"

text \<open>The loop over the holidays (lines 146 to 150).\<close>

fun holidays ::
  "'st env \<Rightarrow> 'st service \<Rightarrow> string list \<Rightarrow> 'st world \<Rightarrow> (error + unit) \<times> 'st world" where
  "holidays env service [] w = (Inr (), w)"
| "holidays env service (date_num # rest) w =
     (case py_int date_num of
        Inl e \<Rightarrow> (Inl e, w)
      | Inr n \<Rightarrow>
          (case date_plus env (n - today_day env) of
             Inl e \<Rightarrow> (Inl e, w)
           | Inr formatted_date \<Rightarrow>
               (case delete_all_events_for_date env service formatted_date
                       (emit (Print (newline @ ''Processing holiday on '' @ formatted_date)) w) of
                  (Inl e, w1) \<Rightarrow> (Inl e, w1)
                | (Inr _, w1) \<Rightarrow> holidays env service rest w1)))"

text \<open>The loop over the class entries of one day order (lines 168 and 169).\<close>

fun create_events ::
  "'st env \<Rightarrow> 'st service \<Rightarrow> class_info list \<Rightarrow> string \<Rightarrow> string \<Rightarrow> 'st world
     \<Rightarrow> (error + unit) \<times> 'st world" where
  "create_events env service [] formatted_date day_order w = (Inr (), w)"
| "create_events env service (ci # rest) formatted_date day_order w =
     (case create_event env service ci formatted_date day_order w of
        (Inl e, w1) \<Rightarrow> (Inl e, w1)
      | (Inr _, w1) \<Rightarrow> create_events env service rest formatted_date day_order w1)"

text \<open>The loop over the scheduled days (lines 157 to 171).\<close>

fun regular_days ::
  "'st env \<Rightarrow> 'st service \<Rightarrow> (string, class_info list) dict \<Rightarrow> (string \<times> string) list
     \<Rightarrow> 'st world \<Rightarrow> (error + unit) \<times> 'st world" where
  "regular_days env service class_schedule [] w = (Inr (), w)"
| "regular_days env service class_schedule ((date_str, day_order) # rest) w =
     (case py_int date_str of
        Inl e \<Rightarrow> (Inl e, w)
      | Inr n \<Rightarrow>
          (case date_plus env (n - today_day env) of
             Inl e \<Rightarrow> (Inl e, w)
           | Inr formatted_date \<Rightarrow>
               (case delete_all_events_for_date env service formatted_date
                       (emit (Print (newline @ ''Processing regular day '' @ formatted_date
                                @ '' (Day Order: '' @ day_order @ '')'')) w) of
                  (Inl e, w1) \<Rightarrow> (Inl e, w1)
                | (Inr _, w1) \<Rightarrow>
                    (case map_of class_schedule day_order of
                       Some classes \<Rightarrow>
                         (case create_events env service classes formatted_date day_order w1 of
                            (Inl e, w2) \<Rightarrow> (Inl e, w2)
                          | (Inr _, w2) \<Rightarrow> regular_days env service class_schedule rest w2)
                     | None \<Rightarrow>
                         regular_days env service class_schedule rest
                           (emit (Print (''No schedule found for Day Order '' @ day_order))
                              w1)))))"

text \<open>
  The \<^verbatim>\<open>try\<close> block of \<open>update_calendar\<close> in two parts: lines 122 to 150, up
  to the end of the holidays, and lines 153 to 171, the load of the class schedule and
  the scheduled days.
\<close>

definition holiday_pass ::
  "'st env \<Rightarrow> (string, string) dict \<Rightarrow> 'st world \<Rightarrow> (error + 'st service) \<times> 'st world" where
  "holiday_pass env day_orders w =
     (case get_calendar_service env of
        Inl e \<Rightarrow> (Inl e, w)
      | Inr service \<Rightarrow>
          (case holiday_dates day_orders of
             Inl e \<Rightarrow> (Inl e, w)
           | Inr (min_date, max_date, hol) \<Rightarrow>
               (case holidays env service (set_order env hol)
                       (emit (Print (''Found '' @ py_str (int (length hol))
                                      @ '' holidays in the range''))
                          (emit (Print (''Date range: '' @ py_str min_date @ '' to ''
                                         @ py_str max_date))
                             (emit (Print (newline @ ''Processing schedule updates...'')) w))) of
                  (Inl e, w1) \<Rightarrow> (Inl e, w1)
                | (Inr _, w1) \<Rightarrow> (Inr service, w1))))"

definition regular_pass ::
  "'st env \<Rightarrow> 'st service \<Rightarrow> (string, string) dict \<Rightarrow> 'st world
     \<Rightarrow> (error + unit) \<times> 'st world" where
  "regular_pass env service day_orders w =
     (case load_class_schedule env w of
        (Inl e, w1) \<Rightarrow> (Inl e, w1)
      | (Inr class_schedule, w1) \<Rightarrow>
          (case class_schedule of
             None \<Rightarrow> (Inr (), w1)
           | Some table \<Rightarrow>
               if table = [] then (Inr (), w1)
               else regular_days env service table day_orders w1))"

text \<open>
  \<open>update_calendar\<close>: an exception of the fetch is not caught; one of the
  \<^verbatim>\<open>try\<close> block is printed and the function returns.
\<close>

definition update_calendar :: "'st env \<Rightarrow> 'st world \<Rightarrow> (error + unit) \<times> 'st world" where
  "update_calendar env w =
     (case get_next_5_day_orders (api_response env) (fetch_day env) of
        Inl e \<Rightarrow> (Inl e, w)
      | Inr None \<Rightarrow>
          (Inr (), emit (Print ''No valid day orders found. Skipping calendar update.'') w)
      | Inr (Some day_orders) \<Rightarrow>
          if day_orders = []
          then (Inr (), emit (Print ''No valid day orders found. Skipping calendar update.'') w)
          else (case (case holiday_pass env day_orders w of
                        (Inl e, w1) \<Rightarrow> (Inl e, w1)
                      | (Inr service, w1) \<Rightarrow> regular_pass env service day_orders w1) of
                  (Inl e, w2) \<Rightarrow>
                    (Inr (), emit (Print (''Error updating calendar: '' @ str_error e)) w2)
                | (Inr _, w2) \<Rightarrow> (Inr (), w2)))"

text \<open>
  A small calendar to run the model on: its state is the list of the events it holds,
  every listing answers with all of them, a delete removes the event with that id and
  fails when there is none, an insert is stored under the summary as id.
\<close>

definition memory_calendar :: "item list service" where
  "memory_calendar =
     \<lparr>events_list = (\<lambda>st cid tmin tmax. (Inr (Some st), st)),
      events_delete = (\<lambda>st cid eid.
         if eid \<in> set (map item_id st)
         then (Inr (), filter (\<lambda>it. item_id it \<noteq> eid) st)
         else (Inl (ExternalError ''Not Found''), st)),
      events_insert = (\<lambda>st cid ev.
         (Inr (), st @ [\<lparr>item_id = summary ev, item_summary = Some (summary ev)\<rparr>]))\<rparr>"

subsection \<open>Sample inputs\<close>

text \<open>
  Concrete inputs on which the model is run: a date library that knows May 2024, an
  environment around \<open>memory_calendar\<close> whose sets iterate in the order of the model,
  and two months of day records.
\<close>

definition may_2024 :: "int \<Rightarrow> int \<Rightarrow> error + string" where
  "may_2024 today n =
     (if 1 \<le> today + n \<and> today + n \<le> 31
      then Inr (''2024-05-'' @ (if today + n < 10 then ''0'' else []) @ py_str (today + n))
      else Inl (OverflowError ''date value out of range''))"

definition sample_env :: "error + response \<Rightarrow> int \<Rightarrow> schedule_file \<Rightarrow> item list env" where
  "sample_env got today file =
     \<lparr>api_response = got, fetch_day = today, calendar_service = Inr memory_calendar,
      CALENDAR_ID = Some ''primary'', today_day = today, date_plus = may_2024 today,
      set_order = (\<lambda>xs. xs), class_schedule_file = file\<rparr>"

definition sample_days :: "day list" where
  "sample_days =
     [\<lparr>date = ''14'', dayOrder = ''2''\<rparr>, \<lparr>date = ''15'', dayOrder = ''3''\<rparr>,
      \<lparr>date = ''16'', dayOrder = ''-''\<rparr>, \<lparr>date = ''17'', dayOrder = ''1''\<rparr>,
      \<lparr>date = ''18'', dayOrder = ''2''\<rparr>, \<lparr>date = ''19'', dayOrder = ''3''\<rparr>,
      \<lparr>date = ''20'', dayOrder = ''4''\<rparr>, \<lparr>date = ''21'', dayOrder = ''5''\<rparr>,
      \<lparr>date = ''xx'', dayOrder = ''1''\<rparr>]"

definition past_days :: "day list" where
  "past_days =
     [\<lparr>date = ''12'', dayOrder = ''2''\<rparr>, \<lparr>date = ''13'', dayOrder = ''3''\<rparr>,
      \<lparr>date = ''15'', dayOrder = ''-''\<rparr>, \<lparr>date = ''16'', dayOrder = ''-''\<rparr>]"

definition two_classes :: "(string, class_info list) dict" where
  "two_classes =
     [(''3'', [\<lparr>subject = ''DAA'', start_time = ''9:30'', end_time = ''10:20''\<rparr>,
               \<lparr>subject = ''XYZ'', start_time = ''14:00'', end_time = ''14:50''\<rparr>]),
      (''1'', [\<lparr>subject = ''AI'', start_time = ''8:00'', end_time = ''8:50''\<rparr>])]"

definition old_event :: item where
  "old_event = \<lparr>item_id = ''e1'', item_summary = Some ''Old''\<rparr>"

definition days_15_17 :: "day list" where
  "days_15_17 = [\<lparr>date = ''15'', dayOrder = ''3''\<rparr>, \<lparr>date = ''16'', dayOrder = ''-''\<rparr>,
                 \<lparr>date = ''17'', dayOrder = ''1''\<rparr>]"

definition day_15 :: "day list" where
  "day_15 = [\<lparr>date = ''15'', dayOrder = ''3''\<rparr>]"

text \<open>
  A calendar that misbehaves: it lists what it holds, the delete of the event \<open>e1\<close>
  always raises, and every insert raises.
\<close>

definition flaky_calendar :: "item list service" where
  "flaky_calendar =
     \<lparr>events_list = (\<lambda>st cid tmin tmax. (Inr (Some st), st)),
      events_delete = (\<lambda>st cid eid.
         if eid = ''e1'' then (Inl (ExternalError ''Backend Error''), st)
         else (Inr (), filter (\<lambda>it. item_id it \<noteq> eid) st)),
      events_insert = (\<lambda>st cid ev. (Inl (ExternalError ''Rate Limit Exceeded''), st))\<rparr>"

definition second_event :: item where
  "second_event = \<lparr>item_id = ''e2'', item_summary = None\<rparr>"

definition days_without_classes :: "day list" where
  "days_without_classes =
     [\<lparr>date = ''15'', dayOrder = ''9''\<rparr>, \<lparr>date = ''16'', dayOrder = ''-''\<rparr>,
      \<lparr>date = ''17'', dayOrder = ''9''\<rparr>]"


section \<open>Properties\<close>

subsection \<open>Decimal text\<close>

lemmas int_defs = py_int_def strip_def is_space_def digit_val_def decimal_digits_def

lemmas str_defs = py_str_def nat_str.simps digit_char_def decimal_digits_def

lemma digit_char_props:
  assumes "d < 10"
  shows "digit_val (digit_char d) = Some d" "is_digit (digit_char d)"
proof -
  from assms have "d \<in> {0, 1, 2, 3, 4, 5, 6, 7, 8, 9}" by auto
  then show "digit_val (digit_char d) = Some d" "is_digit (digit_char d)"
    by (auto simp: digit_val_def digit_char_def decimal_digits_def is_digit_def)
qed

lemma is_digit_facts:
  assumes "is_digit c"
  shows "\<not> is_space c" "c \<noteq> CHR ''_''" "c \<noteq> CHR ''-''" "c \<noteq> CHR ''+''"
        "\<exists>v. digit_val c = Some v"
  using assms by (auto simp: is_digit_def decimal_digits_def is_space_def digit_val_def)

lemma parse_digits_plain:
  "list_all is_digit ds \<Longrightarrow> parse_digits ds acc = Some (digits_value acc ds)"
proof (induction ds acc rule: parse_digits.induct)
  case (1 acc)
  show ?case by (simp add: digits_value_def)
next
  case (2 c acc)
  then obtain v where "digit_val c = Some v" using is_digit_facts(5)[of c] by auto
  then show ?case by (simp add: digits_value_def)
next
  case (3 c d ds acc)
  from "3.prems" have c: "is_digit c" and rest: "list_all is_digit (d # ds)" by simp_all
  from c obtain v where v: "digit_val c = Some v" using is_digit_facts(5)[of c] by auto
  from c have nu: "c \<noteq> CHR ''_''" by (rule is_digit_facts)
  from "3.IH"(2)[OF nu v rest] nu v show ?case by (simp add: digits_value_def)
qed

lemma nat_str_digits: "list_all is_digit (nat_str n) \<and> nat_str n \<noteq> []"
proof (induction n rule: nat_str.induct)
  case (1 n)
  show ?case
  proof (cases "n < 10")
    case True
    then show ?thesis by (subst (1 2) nat_str.simps) (simp add: digit_char_props)
  next
    case False
    with 1 show ?thesis by (subst (1 2) nat_str.simps) (simp add: digit_char_props)
  qed
qed

lemma digits_value_nat_str: "digits_value 0 (nat_str n) = n"
proof (induction n rule: nat_str.induct)
  case (1 n)
  show ?case
  proof (cases "n < 10")
    case True
    then show ?thesis by (subst nat_str.simps) (simp add: digits_value_def digit_char_props)
  next
    case False
    with 1 have "digits_value 0 (nat_str (n div 10)) = n div 10" by simp
    with False show ?thesis
      by (subst nat_str.simps) (simp add: digits_value_def digit_char_props)
  qed
qed

lemma strip_no_space_ends:
  assumes "s \<noteq> []" "\<not> is_space (hd s)" "\<not> is_space (last s)"
  shows "strip s = s"
proof -
  from assms have 1: "dropWhile is_space s = s" by (cases s) auto
  from assms have "rev s \<noteq> []" "\<not> is_space (hd (rev s))" by (simp_all add: hd_rev)
  then have "dropWhile is_space (rev s) = rev s" by (cases "rev s") auto
  with 1 show ?thesis by (simp add: strip_def)
qed

lemma py_int_digits:
  assumes "list_all is_digit s" "s \<noteq> []"
  shows "py_int s = Inr (int (digits_value 0 s))"
    and "py_int (CHR ''-'' # s) = Inr (- int (digits_value 0 s))"
proof -
  from assms obtain d ds where s: "s = d # ds" by (cases s) auto
  with assms have d: "is_digit d" and ds: "list_all is_digit ds" by simp_all
  from d obtain v where v: "digit_val d = Some v" using is_digit_facts(5)[of d] by auto
  have l: "is_digit (last s)" using assms by (simp add: list_all_iff)
  have st: "strip s = s"
    using assms(2) d l s by (intro strip_no_space_ends) (auto dest: is_digit_facts(1))
  have st': "strip (CHR ''-'' # s) = CHR ''-'' # s"
    using assms(2) l by (intro strip_no_space_ends) (auto simp: is_space_def dest: is_digit_facts(1))
  have val: "digits_value v ds = digits_value 0 s"
    using v by (simp add: s digits_value_def)
  from d have nd: "d \<noteq> CHR ''-''" "d \<noteq> CHR ''+''" by (auto dest: is_digit_facts)
  show "py_int s = Inr (int (digits_value 0 s))"
    unfolding py_int_def st using nd v parse_digits_plain[OF ds, of v] val by (simp add: s)
  show "py_int (CHR ''-'' # s) = Inr (- int (digits_value 0 s))"
    unfolding py_int_def st' using v parse_digits_plain[OF ds, of v] val by (simp add: s)
qed

lemma py_int_py_str: "py_int (py_str n) = Inr n"
proof (cases "n < 0")
  case True
  have d: "list_all is_digit (nat_str (nat (- n)))" "nat_str (nat (- n)) \<noteq> []"
    using nat_str_digits[of "nat (- n)"] by blast+
  have "py_int (CHR ''-'' # nat_str (nat (- n))) = Inr (- int (nat (- n)))"
    unfolding py_int_digits(2)[OF d] digits_value_nat_str ..
  moreover have "py_str n = CHR ''-'' # nat_str (nat (- n))"
    using True unfolding py_str_def by (rule if_P)
  moreover have "- int (nat (- n)) = n" using True by arith
  ultimately show ?thesis by (simp only:)
next
  case False
  have d: "list_all is_digit (nat_str (nat n))" "nat_str (nat n) \<noteq> []"
    using nat_str_digits[of "nat n"] by blast+
  have "py_int (nat_str (nat n)) = Inr (int (nat n))"
    unfolding py_int_digits(1)[OF d] digits_value_nat_str ..
  moreover have "py_str n = nat_str (nat n)"
    using False unfolding py_str_def by (rule if_not_P)
  moreover have "int (nat n) = n" using False by arith
  ultimately show ?thesis by (simp only:)
qed

lemma py_str_inj:
  assumes "py_str a = py_str b"
  shows "a = b"
proof -
  have "(Inr a :: error + int) = py_int (py_str a)" by (simp only: py_int_py_str)
  also have "\<dots> = py_int (py_str b)" by (simp only: assms)
  also have "\<dots> = Inr b" by (simp only: py_int_py_str)
  finally show ?thesis by (simp only: sum.inject)
qed

lemma int_all_set:
  "int_all ks = Inr ns \<Longrightarrow> k \<in> set ks \<Longrightarrow> \<exists>n \<in> set ns. py_int k = Inr n"
proof (induction ks arbitrary: ns)
  case Nil then show ?case by simp
next
  case (Cons a ks)
  then show ?case by (auto split: sum.splits)
qed

lemma int_all_set':
  "int_all ks = Inr ns \<Longrightarrow> n \<in> set ns \<Longrightarrow> \<exists>k \<in> set ks. py_int k = Inr n"
proof (induction ks arbitrary: ns)
  case Nil then show ?case by simp
next
  case (Cons a ks)
  then show ?case by (auto split: sum.splits)
qed

lemma canonical_complement:
  assumes "int_all ks = Inr ns"
      and "\<forall>k \<in> set ks. \<exists>n. py_int k = Inr n \<and> py_str n = k"
  shows "py_str ` {lo..hi} - set ks = py_str ` ({lo..hi} - set ns)"
proof (intro set_eqI iffI)
  fix x assume "x \<in> py_str ` {lo..hi} - set ks"
  then obtain i where i: "i \<in> {lo..hi}" "x = py_str i" "py_str i \<notin> set ks" by auto
  have "i \<notin> set ns"
  proof
    assume "i \<in> set ns"
    from int_all_set'[OF assms(1) this] obtain k where k: "k \<in> set ks" "py_int k = Inr i" by auto
    with assms(2) have "py_str i = k" by fastforce
    with k i show False by simp
  qed
  with i show "x \<in> py_str ` ({lo..hi} - set ns)" by auto
next
  fix x assume "x \<in> py_str ` ({lo..hi} - set ns)"
  then obtain i where i: "i \<in> {lo..hi}" "x = py_str i" "i \<notin> set ns" by auto
  have "py_str i \<notin> set ks"
  proof
    assume "py_str i \<in> set ks"
    from int_all_set[OF assms(1) this] obtain n where "n \<in> set ns" "py_int (py_str i) = Inr n" by auto
    with i show False by (simp add: py_int_py_str)
  qed
  with i show "x \<in> py_str ` {lo..hi} - set ks" by auto
qed

subsection \<open>The fetcher and the reconciler\<close>

lemma store_all_Cons: "store_all (d # ds) acc = store_all ds (dict_set (date d) (dayOrder d) acc)"
  by (simp add: store_all_def)

lemma store_all_Nil: "store_all [] acc = acc"
  by (simp add: store_all_def)

lemma collect_days_refines:
  "collect_days t ds acc c = Inr m \<Longrightarrow> 0 \<le> c \<Longrightarrow>
   m = store_all (take (nat (5 - c)) (filter (qualifies t) ds)) acc"
proof (induction ds arbitrary: acc c)
  case Nil
  then show ?case by (simp add: store_all_Nil)
next
  case (Cons d ds)
  show ?case
  proof (cases "c \<ge> 5")
    case True
    with Cons.prems show ?thesis by (simp add: store_all_Nil)
  next
    case False
    then have k: "nat (5 - c) = Suc (nat (5 - (c + 1)))"
      by arith
    from False Cons.prems obtain n where n: "py_int (date d) = Inr n"
      by (auto split: sum.splits)
    show ?thesis
    proof (cases "qualifies t d")
      case True
      with n have q: "n \<ge> t" "dayOrder d \<noteq> ''-''" by (auto simp: qualifies_def)
      with False n Cons.prems have "collect_days t ds (dict_set (date d) (dayOrder d) acc) (c + 1) = Inr m"
        by simp
      from Cons.IH[OF this] Cons.prems(2) True show ?thesis
        by (simp add: store_all_Cons k)
    next
      case nq: False
      with n have "\<not> (n \<ge> t \<and> dayOrder d \<noteq> ''-'')" by (auto simp: qualifies_def)
      with False n Cons.prems have "collect_days t ds acc c = Inr m"
        by (auto split: if_splits)
      from Cons.IH[OF this] Cons.prems(2) nq show ?thesis by simp
    qed
  qed
qed

lemma length_dict_set: "length (dict_set k v m) \<le> Suc (length m)"
  by (induction m) auto

lemma length_store_all: "length (store_all ds acc) \<le> length acc + length ds"
proof (induction ds arbitrary: acc)
  case Nil show ?case by (simp add: store_all_Nil)
next
  case (Cons d ds)
  have "length (store_all ds (dict_set (date d) (dayOrder d) acc))
        \<le> length (dict_set (date d) (dayOrder d) acc) + length ds" by (rule Cons.IH)
  also have "\<dots> \<le> Suc (length acc) + length ds" using length_dict_set[of "date d" "dayOrder d" acc] by simp
  finally show ?case by (simp add: store_all_Cons)
qed

lemma set_dict_set: "set (dict_set k v m) \<subseteq> insert (k, v) (set m)"
  by (induction m) auto

lemma set_store_all: "set (store_all ds acc) \<subseteq> set acc \<union> (\<lambda>d. (date d, dayOrder d)) ` set ds"
proof (induction ds arbitrary: acc)
  case Nil show ?case by (simp add: store_all_Nil)
next
  case (Cons d ds)
  show ?case using Cons.IH[of "dict_set (date d) (dayOrder d) acc"] set_dict_set[of "date d" "dayOrder d" acc]
    by (auto simp: store_all_Cons)
qed

lemma fst_set_dict_set: "fst ` set (dict_set k v m) = insert k (fst ` set m)"
  by (induction m) auto

lemma keys_dict_set: "distinct (map fst m) \<Longrightarrow> distinct (map fst (dict_set k v m))"
  by (induction m) (auto simp: fst_set_dict_set)

lemma distinct_store_all: "distinct (map fst acc) \<Longrightarrow> distinct (map fst (store_all ds acc))"
  by (induction ds arbitrary: acc) (simp_all add: store_all_Nil store_all_Cons keys_dict_set)

text \<open>
  C2: when the API answers with status 200 and \<open>get_next_5_day_orders\<close> returns, the
  mapping it returns is the one obtained by going through the day records in order,
  skipping every record whose day is before today's day of the month, skipping every
  record whose day order is the sentinel \<open>-\<close>, and stopping once five records have
  qualified; it has at most 5 entries, and every entry has a day that is not before today
  and a day order other than the sentinel.
\<close>

theorem get_next_5_day_orders_first_five:
  assumes "status_code resp = 200"
      and "get_next_5_day_orders (Inr resp) today_date = Inr r"
  shows "\<exists>month_data others m.
           json resp = Inr (month_data # others) \<and> r = Some m
         \<and> m = first_five_qualifying today_date month_data
         \<and> length m \<le> 5
         \<and> distinct (keys m)
         \<and> (\<forall>(k, v) \<in> set m. \<exists>n. py_int k = Inr n \<and> today_date \<le> n \<and> v \<noteq> ''-'')"
proof -
  from assms obtain month_data others where j: "json resp = Inr (month_data # others)"
    by (auto simp: get_next_5_day_orders_def split: sum.splits list.splits)
  with assms obtain m where m: "collect_days today_date month_data [] 0 = Inr m" "r = Some m"
    by (auto simp: get_next_5_day_orders_def split: sum.splits)
  let ?qs = "take 5 (filter (qualifies today_date) month_data)"
  from collect_days_refines[OF m(1)] have eq: "m = first_five_qualifying today_date month_data"
    by (simp add: first_five_qualifying_def)
  have len: "length m \<le> 5"
    using length_store_all[of ?qs "[]"] by (simp add: eq first_five_qualifying_def)
  have dist: "distinct (keys m)"
    unfolding eq first_five_qualifying_def keys_def by (rule distinct_store_all) simp
  have ent: "\<forall>(k, v) \<in> set m. \<exists>n. py_int k = Inr n \<and> today_date \<le> n \<and> v \<noteq> ''-''"
  proof (clarify)
    fix k v assume "(k, v) \<in> set m"
    with set_store_all[of ?qs "[]"] obtain d where d: "d \<in> set ?qs" "k = date d" "v = dayOrder d"
      by (auto simp: eq first_five_qualifying_def)
    from d(1) have "qualifies today_date d" by (auto dest: in_set_takeD)
    with d show "\<exists>n. py_int k = Inr n \<and> today_date \<le> n \<and> v \<noteq> ''-''"
      by (auto simp: qualifies_def split: sum.splits)
  qed
  from j m(2) eq len dist ent show ?thesis by blast
qed

lemma sample_fetch:
  "get_next_5_day_orders (Inr \<lparr>status_code = 200, json = Inr [sample_days]\<rparr>) 15
     = Inr (Some [(''15'', ''3''), (''17'', ''1''), (''18'', ''2''), (''19'', ''3''), (''20'', ''4'')])"
  by (simp add: get_next_5_day_orders_def sample_days_def int_defs)

theorem get_next_5_day_orders_first_five_witness:
  "status_code \<lparr>status_code = 200, json = Inr [sample_days]\<rparr> = 200
   \<and> get_next_5_day_orders (Inr \<lparr>status_code = 200, json = Inr [sample_days]\<rparr>) 15
       = Inr (Some [(''15'', ''3''), (''17'', ''1''), (''18'', ''2''), (''19'', ''3''), (''20'', ''4'')])
   \<and> first_five_qualifying 15 sample_days
       = [(''15'', ''3''), (''17'', ''1''), (''18'', ''2''), (''19'', ''3''), (''20'', ''4'')]"
proof -
  have h1: "status_code \<lparr>status_code = 200, json = Inr [sample_days]\<rparr> = 200" by simp
  note h2 = sample_fetch
  from get_next_5_day_orders_first_five[OF h1 h2] h1 h2 show ?thesis by auto
qed

lemma collect_days_total:
  "list_all (\<lambda>d. \<exists>n. py_int (date d) = Inr n) ds \<Longrightarrow> \<exists>m. collect_days t ds acc c = Inr m"
  by (induction ds arbitrary: acc c) auto

lemma get_next_5_day_orders_returns:
  assumes "status_code resp = 200" "json resp = Inr (month_data # others)"
      and "list_all (\<lambda>d. \<exists>n. py_int (date d) = Inr n) month_data"
  shows "get_next_5_day_orders (Inr resp) today_date
           = Inr (Some (first_five_qualifying today_date month_data))"
proof -
  from collect_days_total[OF assms(3)] obtain m where m: "collect_days today_date month_data [] 0 = Inr m"
    by blast
  from collect_days_refines[OF m] have "m = first_five_qualifying today_date month_data"
    by (simp add: first_five_qualifying_def)
  with m assms(1,2) show ?thesis by (simp add: get_next_5_day_orders_def)
qed

text \<open>
  C3: when the status of the API response is not 200, \<open>get_next_5_day_orders\<close>
  returns None and \<open>update_calendar\<close> prints the skip message and returns: it makes
  no list, delete or insert call and the calendar is as it was.
\<close>

theorem failed_fetch_no_calendar_operations:
  assumes "api_response env = Inr resp" and "status_code resp \<noteq> 200"
  shows "get_next_5_day_orders (api_response env) (fetch_day env) = Inr None
       \<and> update_calendar env w
           = (Inr (), emit (Print ''No valid day orders found. Skipping calendar update.'') w)
       \<and> service_state (snd (update_calendar env w)) = service_state w
       \<and> filter is_call (trace (snd (update_calendar env w))) = filter is_call (trace w)"
proof -
  from assms have f: "get_next_5_day_orders (api_response env) (fetch_day env) = Inr None"
    by (simp add: get_next_5_day_orders_def)
  then have u: "update_calendar env w
           = (Inr (), emit (Print ''No valid day orders found. Skipping calendar update.'') w)"
    by (simp add: update_calendar_def)
  from f u show ?thesis by (simp add: emit_def)
qed

theorem failed_fetch_no_calendar_operations_witness:
  "status_code \<lparr>status_code = 500, json = Inr [sample_days]\<rparr> \<noteq> 200
   \<and> update_calendar (sample_env (Inr \<lparr>status_code = 500, json = Inr [sample_days]\<rparr>) 15 FileNotFound)
        \<lparr>service_state = [\<lparr>item_id = ''e1'', item_summary = Some ''Old''\<rparr>], trace = []\<rparr>
      = (Inr (), \<lparr>service_state = [\<lparr>item_id = ''e1'', item_summary = Some ''Old''\<rparr>],
                 trace = [Print ''No valid day orders found. Skipping calendar update.'']\<rparr>)"
proof -
  have h1: "api_response (sample_env (Inr \<lparr>status_code = 500, json = Inr [sample_days]\<rparr>) 15 FileNotFound)
              = Inr \<lparr>status_code = 500, json = Inr [sample_days]\<rparr>"
    by (simp add: sample_env_def)
  have h2: "status_code \<lparr>status_code = 500, json = Inr [sample_days]\<rparr> \<noteq> 200" by simp
  from failed_fetch_no_calendar_operations[OF h1 h2,
      of "\<lparr>service_state = [\<lparr>item_id = ''e1'', item_summary = Some ''Old''\<rparr>], trace = []\<rparr>"] h2
  show ?thesis by (simp add: emit_def)
qed

lemma collect_days_none_qualify:
  "list_all (\<lambda>d. \<exists>n. py_int (date d) = Inr n \<and> (n < t \<or> dayOrder d = ''-'')) ds
   \<Longrightarrow> collect_days t ds acc c = Inr acc"
  by (induction ds arbitrary: acc c) auto

text \<open>
  C10: when the status is 200 and every day record is filtered out (its day is before
  today or its day order is the sentinel), \<open>get_next_5_day_orders\<close> returns the empty
  mapping and \<open>update_calendar\<close> does what it does on a failed fetch: it prints the
  skip message and makes no call to the calendar.
\<close>

theorem empty_fetch_no_calendar_operations:
  assumes "api_response env = Inr resp" and "status_code resp = 200"
      and "json resp = Inr (month_data # others)"
      and "\<forall>d \<in> set month_data.
             \<exists>n. py_int (date d) = Inr n \<and> (n < fetch_day env \<or> dayOrder d = ''-'')"
  shows "get_next_5_day_orders (api_response env) (fetch_day env) = Inr (Some [])
       \<and> update_calendar env w
           = (Inr (), emit (Print ''No valid day orders found. Skipping calendar update.'') w)
       \<and> service_state (snd (update_calendar env w)) = service_state w
       \<and> filter is_call (trace (snd (update_calendar env w))) = filter is_call (trace w)"
proof -
  from assms(4) have "collect_days (fetch_day env) month_data [] 0 = Inr []"
    by (intro collect_days_none_qualify) (simp add: list_all_iff)
  with assms(1-3) have f: "get_next_5_day_orders (api_response env) (fetch_day env) = Inr (Some [])"
    by (simp add: get_next_5_day_orders_def)
  then have u: "update_calendar env w
           = (Inr (), emit (Print ''No valid day orders found. Skipping calendar update.'') w)"
    by (simp add: update_calendar_def)
  from f u show ?thesis by (simp add: emit_def)
qed

theorem empty_fetch_no_calendar_operations_witness:
  "get_next_5_day_orders (Inr \<lparr>status_code = 200, json = Inr [past_days]\<rparr>) 15 = Inr (Some [])
   \<and> update_calendar (sample_env (Inr \<lparr>status_code = 200, json = Inr [past_days]\<rparr>) 15 FileNotFound)
        \<lparr>service_state = [\<lparr>item_id = ''e1'', item_summary = Some ''Old''\<rparr>], trace = []\<rparr>
      = (Inr (), \<lparr>service_state = [\<lparr>item_id = ''e1'', item_summary = Some ''Old''\<rparr>],
                 trace = [Print ''No valid day orders found. Skipping calendar update.'']\<rparr>)"
proof -
  let ?r = "\<lparr>status_code = 200, json = Inr [past_days]\<rparr>"
  let ?e = "sample_env (Inr ?r) 15 FileNotFound"
  have h1: "api_response ?e = Inr ?r" by (simp add: sample_env_def)
  have h2: "status_code ?r = 200" by simp
  have h3: "json ?r = Inr (past_days # [])" by simp
  have h4: "\<forall>d \<in> set past_days.
             \<exists>n. py_int (date d) = Inr n \<and> (n < fetch_day ?e \<or> dayOrder d = ''-'')"
    by (simp add: past_days_def sample_env_def int_defs)
  from empty_fetch_no_calendar_operations[OF h1 h2 h3 h4,
      of "\<lparr>service_state = [\<lparr>item_id = ''e1'', item_summary = Some ''Old''\<rparr>], trace = []\<rparr>"]
  show ?thesis by (simp add: emit_def sample_env_def)
qed

lemma set_set_add: "set (set_add x s) = insert x (set s)"
  by (auto simp: set_add_def)

lemma distinct_set_add: "distinct s \<Longrightarrow> distinct (set_add x s)"
  by (auto simp: set_add_def)

lemma set_dates_in_range:
  "set (dates_in_range c m acc) = set acc \<union> py_str ` {c..m}"
proof (induction c m acc rule: dates_in_range.induct)
  case (1 c m acc)
  show ?case
  proof (cases "c \<le> m")
    case True
    then have "{c..m} = insert c {c + 1..m}" by auto
    with True 1 show ?thesis
      by (subst dates_in_range.simps) (auto simp: set_set_add)
  next
    case False
    then show ?thesis by (subst dates_in_range.simps) simp
  qed
qed

lemma distinct_dates_in_range:
  "distinct acc \<Longrightarrow> distinct (dates_in_range c m acc)"
proof (induction c m acc rule: dates_in_range.induct)
  case (1 c m acc)
  then show ?case
    by (subst dates_in_range.simps) (simp add: distinct_set_add)
qed

lemma set_py_set_aux: "set (fold set_add xs acc) = set xs \<union> set acc"
  by (induction xs arbitrary: acc) (auto simp: set_set_add)

lemma set_py_set: "set (py_set xs) = set xs"
  by (simp add: py_set_def set_py_set_aux)

lemma int_all_length: "int_all ks = Inr ns \<Longrightarrow> length ns = length ks"
  by (induction ks arbitrary: ns) (auto split: sum.splits)

lemma int_all_nth:
  "int_all ks = Inr ns \<Longrightarrow> i < length ks \<Longrightarrow> py_int (ks ! i) = Inr (ns ! i)"
proof (induction ks arbitrary: ns i)
  case Nil then show ?case by simp
next
  case (Cons k ks)
  then show ?case by (cases i) (auto split: sum.splits)
qed

text \<open>
  C4: for a fetched mapping that is not empty, the holiday set that
  \<open>update_calendar\<close> computes is the complement of the fetched keys within the whole
  range of integers from the least to the greatest fetched day, each integer written in
  decimal; when every key is the decimal text of its number this is the set of the days
  of the range that were not fetched. For a fetch of days 15 and 17 it is exactly
  \<open>{16}\<close>.
\<close>

theorem holiday_dates_complement:
  assumes "day_orders \<noteq> []" and "int_all (keys day_orders) = Inr date_numbers"
  shows "\<exists>hol. holiday_dates day_orders
                 = Inr (Min (set date_numbers), Max (set date_numbers), hol)
             \<and> distinct hol
             \<and> set hol = py_str ` {Min (set date_numbers) .. Max (set date_numbers)}
                           - set (keys day_orders)
             \<and> ((\<forall>k \<in> set (keys day_orders). \<exists>n. py_int k = Inr n \<and> py_str n = k)
                  \<longrightarrow> set hol = py_str ` ({Min (set date_numbers) .. Max (set date_numbers)}
                                             - set date_numbers))"
proof -
  from assms have "date_numbers \<noteq> []"
    using int_all_length[OF assms(2)] by (auto simp: keys_def)
  then obtain y ys where ys: "date_numbers = y # ys" by (cases date_numbers) auto
  have mn: "py_min date_numbers = Inr (Min (set date_numbers))"
    unfolding py_min_def ys using Min.set_eq_fold[of y ys] by simp
  have mx: "py_max date_numbers = Inr (Max (set date_numbers))"
    unfolding py_max_def ys using Max.set_eq_fold[of y ys] by simp
  let ?lo = "Min (set date_numbers)" and ?hi = "Max (set date_numbers)"
  let ?hol = "set_difference (dates_in_range ?lo ?hi []) (py_set (keys day_orders))"
  have 1: "holiday_dates day_orders = Inr (?lo, ?hi, ?hol)"
    by (simp add: holiday_dates_def assms(2) mn mx)
  have 2: "distinct ?hol"
    by (simp add: set_difference_def distinct_dates_in_range)
  have 3: "set ?hol = py_str ` {?lo..?hi} - set (keys day_orders)"
    by (auto simp: set_difference_def set_dates_in_range set_py_set)
  have 4: "(\<forall>k \<in> set (keys day_orders). \<exists>n. py_int k = Inr n \<and> py_str n = k)
             \<longrightarrow> set ?hol = py_str ` ({?lo..?hi} - set date_numbers)"
    unfolding 3 using canonical_complement[OF assms(2)] by blast
  from 1 2 3 4 show ?thesis by blast
qed

lemma fetch_15_17: "holiday_dates [(''15'', ''3''), (''17'', ''1'')] = Inr (15, 17, [''16''])"
  by (simp add: holiday_dates_def keys_def int_defs py_min_def py_max_def dates_in_range.simps
        set_add_def set_difference_def py_set_def str_defs)

theorem holiday_dates_complement_witness:
  "holiday_dates [(''15'', ''3''), (''17'', ''1'')] = Inr (15, 17, [''16''])
   \<and> set [''16''] = py_str ` {15..17} - set (keys [(''15'', ''3''), (''17'', ''1'')])
   \<and> set [''16''] = py_str ` ({15..17} - set [15, 17])"
proof -
  have h1: "[(''15'', ''3''), (''17'', ''1'')] \<noteq> ([] :: (string, string) dict)" by simp
  have h2: "int_all (keys [(''15'', ''3''), (''17'', ''1'')]) = Inr [15, 17]"
    by (simp add: keys_def int_defs)
  have h3: "\<forall>k \<in> set (keys [(''15'', ''3''), (''17'', ''1'')]). \<exists>n. py_int k = Inr n \<and> py_str n = k"
    by (simp add: keys_def int_defs str_defs)
  from holiday_dates_complement[OF h1 h2] obtain hol where
    a: "holiday_dates [(''15'', ''3''), (''17'', ''1'')]
          = Inr (Min (set [15, 17]), Max (set [15, 17]), hol)"
    and b: "set hol = py_str ` {Min (set [15, 17]) .. Max (set [15, 17])}
                       - set (keys [(''15'', ''3''), (''17'', ''1'')])"
    and c: "(\<forall>k \<in> set (keys [(''15'', ''3''), (''17'', ''1'')]). \<exists>n. py_int k = Inr n \<and> py_str n = k)
             \<longrightarrow> set hol = py_str ` ({Min (set [15, 17]) .. Max (set [15, 17])} - set [15, 17])"
    by blast
  have mm: "Min (set [15, 17 :: int]) = 15" "Max (set [15, 17 :: int]) = 17" by simp_all
  from a have hol: "hol = [''16'']" unfolding fetch_15_17 by simp
  from c h3 have c': "set hol = py_str ` ({Min (set [15, 17]) .. Max (set [15, 17])} - set [15, 17])"
    by blast
  show ?thesis
    using fetch_15_17 b[unfolded hol mm] c'[unfolded hol mm] by (simp only: simp_thms)
qed

text \<open>
  The complement is taken between strings: a fetched key that is not the decimal text of
  its number, such as \<open>05\<close>, leaves \<open>5\<close> in the holiday set.
\<close>

lemma padded_keys: "holiday_dates [(''05'', ''3''), (''7'', ''1'')] = Inr (5, 7, [''5'', ''6''])"
  by (simp add: holiday_dates_def keys_def int_defs py_min_def py_max_def dates_in_range.simps
        set_add_def set_difference_def py_set_def str_defs)

subsection \<open>The load of the class schedule and the creation of events\<close>

text \<open>
  C7: when the class-schedule file is missing or is not valid JSON,
  \<open>load_class_schedule\<close> prints its diagnostic and returns None, and
  \<open>update_calendar\<close> stops there: the run ends in the state the holidays left, with
  the diagnostic as its last effect and no further call to the calendar.
\<close>

theorem load_failure_stops_update:
  assumes "class_schedule_file env = FileNotFound \<or> class_schedule_file env = InvalidJSON"
  shows "(\<forall>w'. load_class_schedule env w'
                = (Inr None, emit (Print (load_diagnostic (class_schedule_file env))) w'))
       \<and> (\<forall>day_orders service w w1.
             get_next_5_day_orders (api_response env) (fetch_day env) = Inr (Some day_orders)
             \<longrightarrow> day_orders \<noteq> []
             \<longrightarrow> holiday_pass env day_orders w = (Inr service, w1)
             \<longrightarrow> regular_pass env service day_orders w1
                   = (Inr (), emit (Print (load_diagnostic (class_schedule_file env))) w1)
               \<and> update_calendar env w
                   = (Inr (), emit (Print (load_diagnostic (class_schedule_file env))) w1))"
  using assms
  by (auto simp: load_class_schedule_def update_calendar_def regular_pass_def load_diagnostic_def)

lemmas run_defs =
  update_calendar_def get_next_5_day_orders_def holiday_pass_def regular_pass_def
  holiday_dates_def load_class_schedule_def delete_all_events_for_date_def
  get_events_for_specific_date_def get_calendar_id_def get_calendar_service_def
  create_event_def try_insert_def base_subject_def format_datetime_def emit_def called_def newline_def
  sample_env_def may_2024_def memory_calendar_def keys_def py_min_def py_max_def py_set_def
  set_add_def set_difference_def dates_in_range.simps int_defs str_defs

lemma holiday_pass_15_17:
  "holiday_pass (sample_env (Inr \<lparr>status_code = 200, json = Inr [days_15_17]\<rparr>) 15 InvalidJSON)
       [(''15'', ''3''), (''17'', ''1'')] \<lparr>service_state = [old_event], trace = []\<rparr>
   = (Inr memory_calendar,
      \<lparr>service_state = [],
       trace = [Print (newline @ ''Processing schedule updates...''),
                Print ''Date range: 15 to 17'',
                Print ''Found 1 holidays in the range'',
                Print (newline @ ''Processing holiday on 2024-05-16''),
                Print ''Checking for events to delete on 2024-05-16'',
                ListCall ''primary'' ''2024-05-16T00:00:00+05:30'' ''2024-05-16T23:59:00+05:30'',
                DeleteCall ''primary'' ''e1'',
                Print ''Deleted event: Old on 2024-05-16'',
                Print ''Deleted 1 events for 2024-05-16'']\<rparr>)"
  by (simp add: run_defs old_event_def)

theorem load_failure_stops_update_witness:
  "class_schedule_file (sample_env (Inr \<lparr>status_code = 200, json = Inr [days_15_17]\<rparr>) 15 InvalidJSON)
     = InvalidJSON
   \<and> update_calendar (sample_env (Inr \<lparr>status_code = 200, json = Inr [days_15_17]\<rparr>) 15 InvalidJSON)
        \<lparr>service_state = [old_event], trace = []\<rparr>
     = (Inr (),
        \<lparr>service_state = [],
         trace = [Print (newline @ ''Processing schedule updates...''),
                  Print ''Date range: 15 to 17'',
                  Print ''Found 1 holidays in the range'',
                  Print (newline @ ''Processing holiday on 2024-05-16''),
                  Print ''Checking for events to delete on 2024-05-16'',
                  ListCall ''primary'' ''2024-05-16T00:00:00+05:30'' ''2024-05-16T23:59:00+05:30'',
                  DeleteCall ''primary'' ''e1'',
                  Print ''Deleted event: Old on 2024-05-16'',
                  Print ''Deleted 1 events for 2024-05-16'',
                  Print ''Error: Invalid JSON format in class_schedule.json'']\<rparr>)"
proof -
  let ?e = "sample_env (Inr \<lparr>status_code = 200, json = Inr [days_15_17]\<rparr>) 15 InvalidJSON"
  have f: "class_schedule_file ?e = InvalidJSON" by (simp add: sample_env_def)
  then have h0: "class_schedule_file ?e = FileNotFound \<or> class_schedule_file ?e = InvalidJSON"
    by simp
  have h1: "get_next_5_day_orders (api_response ?e) (fetch_day ?e)
              = Inr (Some [(''15'', ''3''), (''17'', ''1'')])"
    by (simp add: get_next_5_day_orders_def sample_env_def days_15_17_def int_defs)
  have h2: "[(''15'', ''3''), (''17'', ''1'')] \<noteq> ([] :: (string, string) dict)" by simp
  note h3 = holiday_pass_15_17
  from load_failure_stops_update[OF h0] h1 h2 h3
  have "update_calendar ?e \<lparr>service_state = [old_event], trace = []\<rparr>
          = (Inr (), emit (Print (load_diagnostic (class_schedule_file ?e)))
               \<lparr>service_state = [],
                trace = [Print (newline @ ''Processing schedule updates...''),
                  Print ''Date range: 15 to 17'',
                  Print ''Found 1 holidays in the range'',
                  Print (newline @ ''Processing holiday on 2024-05-16''),
                  Print ''Checking for events to delete on 2024-05-16'',
                  ListCall ''primary'' ''2024-05-16T00:00:00+05:30'' ''2024-05-16T23:59:00+05:30'',
                  DeleteCall ''primary'' ''e1'',
                  Print ''Deleted event: Old on 2024-05-16'',
                  Print ''Deleted 1 events for 2024-05-16'']\<rparr>)"
    by blast
  with f show ?thesis by (simp add: emit_def load_diagnostic_def)
qed

lemma create_event_raises:
  "\<exists>e. create_event env service ci date_str day_order w = (Inl e, w)"
  by (simp add: create_event_def base_subject_def split: sum.splits)

text \<open>
  C5: the colour of a created event is looked up in \<open>SUBJECT_COLORS\<close> with the
  default \<open>8\<close>. The lookup would give \<open>8\<close> for the subject \<open>XYZ\<close>, but its key
  \<^verbatim>\<open>base_subject\<close> is never bound: \<open>create_event\<close> raises NameError and creates no
  event.
\<close>

theorem create_event_unknown_subject_raises:
  "create_event (sample_env (Inr \<lparr>status_code = 200, json = Inr [day_15]\<rparr>) 15 (Parsed two_classes))
      memory_calendar \<lparr>subject = ''XYZ'', start_time = ''14:00'', end_time = ''14:50''\<rparr>
      ''2024-05-15'' ''3'' \<lparr>service_state = [], trace = []\<rparr>
   = (Inl (NameError ''name 'base_subject' is not defined''), \<lparr>service_state = [], trace = []\<rparr>)
   \<and> dict_get SUBJECT_COLORS ''XYZ'' ''8'' = ''8''"
  by (simp add: run_defs dict_get_def SUBJECT_COLORS_def)

text \<open>
  C1: a scheduled date whose day order has class entries should get one insert per
  entry after its events are deleted. For day order \<open>3\<close> with two class entries the
  events of the date are deleted, and then the run ends with the NameError of the first
  \<open>create_event\<close>: there is no insert call.
\<close>

theorem update_calendar_day_order_3_no_insert:
  "map_of two_classes ''3''
     = Some [\<lparr>subject = ''DAA'', start_time = ''9:30'', end_time = ''10:20''\<rparr>,
             \<lparr>subject = ''XYZ'', start_time = ''14:00'', end_time = ''14:50''\<rparr>]
   \<and> update_calendar (sample_env (Inr \<lparr>status_code = 200, json = Inr [day_15]\<rparr>) 15 (Parsed two_classes))
        \<lparr>service_state = [old_event], trace = []\<rparr>
     = (Inr (),
        \<lparr>service_state = [],
         trace = [Print (newline @ ''Processing schedule updates...''),
                  Print ''Date range: 15 to 15'',
                  Print ''Found 0 holidays in the range'',
                  Print (newline @ ''Processing regular day 2024-05-15 (Day Order: 3)''),
                  Print ''Checking for events to delete on 2024-05-15'',
                  ListCall ''primary'' ''2024-05-15T00:00:00+05:30'' ''2024-05-15T23:59:00+05:30'',
                  DeleteCall ''primary'' ''e1'',
                  Print ''Deleted event: Old on 2024-05-15'',
                  Print ''Deleted 1 events for 2024-05-15'',
                  Print ''Error updating calendar: name 'base_subject' is not defined'']\<rparr>)"
  by (simp add: run_defs old_event_def day_15_def two_classes_def)

text \<open>
  The same NameError on the days 15 and 17: the run ends at the first class entry of day
  15, and day 17 is never processed.
\<close>

lemma name_error_aborts_remaining_dates:
  "update_calendar (sample_env (Inr \<lparr>status_code = 200, json = Inr [days_15_17]\<rparr>) 15 (Parsed two_classes))
        \<lparr>service_state = [old_event], trace = []\<rparr>
     = (Inr (),
        \<lparr>service_state = [],
         trace = [Print (newline @ ''Processing schedule updates...''),
                  Print ''Date range: 15 to 17'',
                  Print ''Found 1 holidays in the range'',
                  Print (newline @ ''Processing holiday on 2024-05-16''),
                  Print ''Checking for events to delete on 2024-05-16'',
                  ListCall ''primary'' ''2024-05-16T00:00:00+05:30'' ''2024-05-16T23:59:00+05:30'',
                  DeleteCall ''primary'' ''e1'',
                  Print ''Deleted event: Old on 2024-05-16'',
                  Print ''Deleted 1 events for 2024-05-16'',
                  Print (newline @ ''Processing regular day 2024-05-15 (Day Order: 3)''),
                  Print ''Checking for events to delete on 2024-05-15'',
                  ListCall ''primary'' ''2024-05-15T00:00:00+05:30'' ''2024-05-15T23:59:00+05:30'',
                  Print ''No events found to delete for 2024-05-15'',
                  Print ''Error updating calendar: name 'base_subject' is not defined'']\<rparr>)"
  by (simp add: run_defs old_event_def days_15_17_def two_classes_def)


lemma delete_events_no_insert:
  "filter is_insert (trace (snd (delete_events service calendar_id date_str events n w)))
     = filter is_insert (trace w)"
proof (induction events arbitrary: n w)
  case Nil
  show ?case by simp
next
  case (Cons ev events)
  obtain r st where r: "events_delete service (service_state w) calendar_id (item_id ev) = (r, st)"
    by (cases "events_delete service (service_state w) calendar_id (item_id ev)")
  show ?case
  proof (cases r)
    case (Inl e)
    with r show ?thesis by (simp add: Cons.IH emit_def called_def)
  next
    case (Inr u)
    with r show ?thesis by (simp add: Cons.IH emit_def called_def)
  qed
qed

lemma get_events_no_insert:
  "filter is_insert (trace (snd (get_events_for_specific_date env service date_str w)))
     = filter is_insert (trace w)"
  by (auto simp: get_events_for_specific_date_def called_def Let_def split: sum.splits prod.splits)

lemma delete_all_no_insert:
  "filter is_insert (trace (snd (delete_all_events_for_date env service date_str w)))
     = filter is_insert (trace w)"
proof (cases "get_calendar_id env")
  case (Inl e)
  then show ?thesis by (simp add: delete_all_events_for_date_def)
next
  case (Inr cid)
  let ?w0 = "emit (Print (''Checking for events to delete on '' @ date_str)) w"
  obtain r w1 where g: "get_events_for_specific_date env service date_str ?w0 = (r, w1)"
    by (cases "get_events_for_specific_date env service date_str ?w0")
  have w1: "filter is_insert (trace w1) = filter is_insert (trace w)"
    using get_events_no_insert[of env service date_str ?w0] g by (simp add: emit_def)
  show ?thesis
  proof (cases r)
    case (Inl e)
    with Inr g w1 show ?thesis by (simp add: delete_all_events_for_date_def)
  next
    case evs: (Inr events)
    obtain k w2 where d: "delete_events service cid date_str events 0 w1 = (k, w2)"
      by (cases "delete_events service cid date_str events 0 w1")
    have "filter is_insert (trace w2) = filter is_insert (trace w1)"
      using delete_events_no_insert[of service cid date_str events 0 w1] d by simp
    with Inr g evs d w1 show ?thesis
      by (simp add: delete_all_events_for_date_def emit_def)
  qed
qed

lemma create_events_raises:
  "create_events env service classes formatted_date day_order w = (Inr (), w) \<and> classes = []
   \<or> (\<exists>e. create_events env service classes formatted_date day_order w = (Inl e, w))"
proof (cases classes)
  case Nil
  then show ?thesis by simp
next
  case (Cons ci rest)
  from create_event_raises[of env service ci formatted_date day_order w]
  obtain e where "create_event env service ci formatted_date day_order w = (Inl e, w)" ..
  with Cons show ?thesis by simp
qed

lemma create_events_same_world:
  "snd (create_events env service classes formatted_date day_order w) = w"
  using create_events_raises[of env service classes formatted_date day_order w] by auto

lemma holidays_no_insert:
  "filter is_insert (trace (snd (holidays env service dates w))) = filter is_insert (trace w)"
proof (induction dates arbitrary: w)
  case Nil
  show ?case by simp
next
  case (Cons date_num rest)
  show ?case
  proof (cases "py_int date_num")
    case (Inl e) then show ?thesis by simp
  next
    case n: (Inr n)
    show ?thesis
    proof (cases "date_plus env (n - today_day env)")
      case (Inl e) with n show ?thesis by simp
    next
      case fd: (Inr formatted_date)
      let ?w0 = "emit (Print (newline @ ''Processing holiday on '' @ formatted_date)) w"
      obtain r w1 where d: "delete_all_events_for_date env service formatted_date ?w0 = (r, w1)"
        by (cases "delete_all_events_for_date env service formatted_date ?w0")
      have w1: "filter is_insert (trace w1) = filter is_insert (trace w)"
        using delete_all_no_insert[of env service formatted_date ?w0] d by (simp add: emit_def)
      show ?thesis
      proof (cases r)
        case (Inl e) with n fd d w1 show ?thesis by simp
      next
        case (Inr u) with n fd d w1 show ?thesis by (simp add: Cons.IH)
      qed
    qed
  qed
qed

lemma regular_days_no_insert:
  "filter is_insert (trace (snd (regular_days env service class_schedule items w)))
     = filter is_insert (trace w)"
proof (induction items arbitrary: w)
  case Nil
  show ?case by simp
next
  case (Cons p rest)
  obtain date_str day_order where p: "p = (date_str, day_order)" by (cases p)
  show ?case
  proof (cases "py_int date_str")
    case (Inl e) with p show ?thesis by simp
  next
    case n: (Inr n)
    show ?thesis
    proof (cases "date_plus env (n - today_day env)")
      case (Inl e) with n p show ?thesis by simp
    next
      case fd: (Inr formatted_date)
      let ?w0 = "emit (Print (newline @ ''Processing regular day '' @ formatted_date
                                @ '' (Day Order: '' @ day_order @ '')'')) w"
      obtain r w1 where d: "delete_all_events_for_date env service formatted_date ?w0 = (r, w1)"
        by (cases "delete_all_events_for_date env service formatted_date ?w0")
      have w1: "filter is_insert (trace w1) = filter is_insert (trace w)"
        using delete_all_no_insert[of env service formatted_date ?w0] d by (simp add: emit_def)
      show ?thesis
      proof (cases r)
        case (Inl e) with n fd d w1 p show ?thesis by simp
      next
        case u: (Inr u)
        show ?thesis
        proof (cases "map_of class_schedule day_order")
          case None
          with n fd d w1 p u show ?thesis by (simp add: Cons.IH emit_def)
        next
          case (Some classes)
          obtain r2 w2 where c: "create_events env service classes formatted_date day_order w1 = (r2, w2)"
            by (cases "create_events env service classes formatted_date day_order w1")
          have "w2 = w1" using create_events_same_world[of env service classes formatted_date day_order w1] c
            by simp
          with Some n fd d w1 p u c show ?thesis
            by (cases r2) (simp_all add: Cons.IH)
        qed
      qed
    qed
  qed
qed

lemma holiday_pass_no_insert:
  "filter is_insert (trace (snd (holiday_pass env day_orders w))) = filter is_insert (trace w)"
proof (cases "get_calendar_service env")
  case (Inl e) then show ?thesis by (simp add: holiday_pass_def)
next
  case s: (Inr service)
  show ?thesis
  proof (cases "holiday_dates day_orders")
    case (Inl e) with s show ?thesis by (simp add: holiday_pass_def)
  next
    case (Inr t)
    obtain min_date max_date hol where t: "t = (min_date, max_date, hol)" by (cases t)
    let ?w0 = "emit (Print (''Found '' @ py_str (int (length hol)) @ '' holidays in the range''))
                 (emit (Print (''Date range: '' @ py_str min_date @ '' to '' @ py_str max_date))
                    (emit (Print (newline @ ''Processing schedule updates...'')) w))"
    obtain r w1 where h: "holidays env service (set_order env hol) ?w0 = (r, w1)"
      by (cases "holidays env service (set_order env hol) ?w0")
    have "filter is_insert (trace w1) = filter is_insert (trace w)"
      using holidays_no_insert[of env service "set_order env hol" ?w0] h by (simp add: emit_def)
    with s Inr t h show ?thesis by (cases r) (simp_all add: holiday_pass_def)
  qed
qed

lemma regular_pass_no_insert:
  "filter is_insert (trace (snd (regular_pass env service day_orders w))) = filter is_insert (trace w)"
  by (cases "class_schedule_file env")
     (simp_all add: regular_pass_def load_class_schedule_def emit_def regular_days_no_insert)

lemma update_calendar_never_inserts:
  "filter is_insert (trace (snd (update_calendar env w))) = filter is_insert (trace w)"
proof (cases "get_next_5_day_orders (api_response env) (fetch_day env)")
  case (Inl e) then show ?thesis by (simp add: update_calendar_def)
next
  case (Inr r)
  show ?thesis
  proof (cases r)
    case None with Inr show ?thesis by (simp add: update_calendar_def emit_def)
  next
    case (Some day_orders)
    show ?thesis
    proof (cases "day_orders = []")
      case True with Inr Some show ?thesis by (simp add: update_calendar_def emit_def)
    next
      case False
      obtain r1 w1 where h: "holiday_pass env day_orders w = (r1, w1)"
        by (cases "holiday_pass env day_orders w")
      have w1: "filter is_insert (trace w1) = filter is_insert (trace w)"
        using holiday_pass_no_insert[of env day_orders w] h by simp
      show ?thesis
      proof (cases r1)
        case (Inl e)
        with Inr Some False h w1 show ?thesis by (simp add: update_calendar_def emit_def)
      next
        case s: (Inr service)
        obtain r2 w2 where g: "regular_pass env service day_orders w1 = (r2, w2)"
          by (cases "regular_pass env service day_orders w1")
        have "filter is_insert (trace w2) = filter is_insert (trace w1)"
          using regular_pass_no_insert[of env service day_orders w1] g by simp
        with Inr Some False h w1 s g show ?thesis
          by (cases r2) (simp_all add: update_calendar_def emit_def)
      qed
    qed
  qed
qed

subsection \<open>The guarded calls\<close>




text \<open>
  A whole pass on the calendar whose delete of \<open>e1\<close> always fails: every date is
  still processed and the run ends without an error of its own.
\<close>

lemma failing_deletes_do_not_stop_the_pass:
  "update_calendar
      ((sample_env (Inr \<lparr>status_code = 200, json = Inr [days_without_classes]\<rparr>) 15
          (Parsed two_classes))\<lparr>calendar_service := Inr flaky_calendar\<rparr>)
      \<lparr>service_state = [old_event, second_event], trace = []\<rparr>
   = (Inr (),
      \<lparr>service_state = [old_event],
       trace = [Print (newline @ ''Processing schedule updates...''),
                Print ''Date range: 15 to 17'',
                Print ''Found 1 holidays in the range'',
                Print (newline @ ''Processing holiday on 2024-05-16''),
                Print ''Checking for events to delete on 2024-05-16'',
                ListCall ''primary'' ''2024-05-16T00:00:00+05:30'' ''2024-05-16T23:59:00+05:30'',
                DeleteCall ''primary'' ''e1'',
                Print ''Error deleting event: Backend Error'',
                DeleteCall ''primary'' ''e2'',
                Print ''Deleted event: Unknown event on 2024-05-16'',
                Print ''Deleted 1 events for 2024-05-16'',
                Print (newline @ ''Processing regular day 2024-05-15 (Day Order: 9)''),
                Print ''Checking for events to delete on 2024-05-15'',
                ListCall ''primary'' ''2024-05-15T00:00:00+05:30'' ''2024-05-15T23:59:00+05:30'',
                DeleteCall ''primary'' ''e1'',
                Print ''Error deleting event: Backend Error'',
                Print ''No events found to delete for 2024-05-15'',
                Print ''No schedule found for Day Order 9'',
                Print (newline @ ''Processing regular day 2024-05-17 (Day Order: 9)''),
                Print ''Checking for events to delete on 2024-05-17'',
                ListCall ''primary'' ''2024-05-17T00:00:00+05:30'' ''2024-05-17T23:59:00+05:30'',
                DeleteCall ''primary'' ''e1'',
                Print ''Error deleting event: Backend Error'',
                Print ''No events found to delete for 2024-05-17'',
                Print ''No schedule found for Day Order 9'']\<rparr>)"
  by (simp add: run_defs flaky_calendar_def old_event_def second_event_def
        days_without_classes_def two_classes_def)

subsection \<open>format\_datetime\<close>


text \<open>
  C8: \<open>format_datetime\<close> joins date and time with seconds \<open>:00\<close> and the fixed offset
  \<open>+05:30\<close>, padding an \<open>H:MM\<close> time to \<open>HH:MM\<close>; on the two inputs of the
  specification it returns \<open>2024-05-01T09:30:00+05:30\<close> and
  \<open>2024-05-01T14:00:00+05:30\<close>.
\<close>

theorem format_datetime_examples:
  "format_datetime ''2024-05-01'' ''9:30'' = ''2024-05-01T09:30:00+05:30''
   \<and> format_datetime ''2024-05-01'' ''14:00'' = ''2024-05-01T14:00:00+05:30''
   \<and> format_datetime d [h, CHR '':'', m1, m2] = d @ ''T'' @ [CHR ''0'', h, CHR '':'', m1, m2] @ '':00+05:30''
   \<and> format_datetime d [h1, h2, CHR '':'', m1, m2] = d @ ''T'' @ [h1, h2, CHR '':'', m1, m2] @ '':00+05:30''"
  by (simp add: format_datetime_def)

text \<open>
  C9: for every pair of strings, \<open>format_datetime\<close> puts a zero in front of the time
  exactly when the time has 4 characters, embeds a time of any other length as it is, and
  the result is always date, \<open>T\<close>, the (possibly padded) time and \<open>:00+05:30\<close>.
\<close>

theorem format_datetime_pad_iff_len4:
  "format_datetime d t = d @ ''T'' @ (if length t = 4 then CHR ''0'' # t else t) @ '':00+05:30''
   \<and> ((\<exists>p. format_datetime d t = d @ ''T'' @ p @ '':00+05:30'' \<and> p = CHR ''0'' # t) = (length t = 4))
   \<and> format_datetime d ''1:5'' = d @ ''T1:5:00+05:30''
   \<and> format_datetime d ''09:30'' = d @ ''T09:30:00+05:30''"
  by (auto simp add: format_datetime_def)

end
